theory Spec2Isabelle
  imports Complex_Main "HOL-Library.Sublist"
begin

section \<open>Memey: the trigger controller of \<open>main.py\<close>\<close>

text \<open>
  The class \<open>Memey\<close> keeps five settings and four tracking attributes. The settings are
  assigned once in \<open>__init__\<close> and never written again, except \<open>sound_enabled\<close>,
  which the key handler toggles; they are the record \<open>config\<close>, and \<open>sound_enabled\<close>
  lives with the tracking attributes in the record \<open>state\<close>.

  Times and confidences are Python floats read from \<open>time.time()\<close> and the classifier;
  they are modelled as real numbers, so rounding of the float subtraction is not part
  of the model.
\<close>

record config =
  detection_interval :: real
  emotion_hold_time :: real
  meme_cooldown :: real
  meme_display_duration :: real
  confidence_threshold :: real

record state =
  current_emotion :: string
  emotion_start_time :: "real option"
  meme_triggered :: bool
  last_meme_time :: real
  sound_enabled :: bool

text \<open>The values \<open>Memey.__init__\<close> assigns (lines 29-34 and 42-45).\<close>

definition default_config :: config where
  "default_config =
     \<lparr>detection_interval = 0.3, emotion_hold_time = 2.0, meme_cooldown = 5.0,
      meme_display_duration = 4.0, confidence_threshold = 0.4\<rparr>"

definition init_state :: state where
  "init_state =
     \<lparr>current_emotion = ''neutral'', emotion_start_time = None,
      meme_triggered = False, last_meme_time = 0, sound_enabled = True\<rparr>"

text \<open>
  What the controller does to its collaborators. \<open>_trigger_meme\<close> calls
  \<open>meme_manager.display_meme(emotion, duration)\<close> and, when sound is enabled,
  \<open>audio_player.play_emotion_sound(emotion)\<close>: that pair of calls is one trigger
  event, carrying the emotion, the display duration and whether the sound is played.
  The key handler also calls \<open>audio_player.stop()\<close> when sound is switched off.
\<close>

datatype effect = Trigger string real bool | StopAudio

fun trigger_label :: "effect \<Rightarrow> string option" where
  "trigger_label (Trigger e d snd_on) = Some e"
| "trigger_label StopAudio = None"

text \<open>
  \<open>_trigger_meme(emotion)\<close>, lines 138-153. The argument \<open>t\<close> is the value that the
  call \<open>time.time()\<close> on line 153 returns.
\<close>

definition trigger_meme :: "config \<Rightarrow> state \<Rightarrow> string \<Rightarrow> real \<Rightarrow> state \<times> effect" where
  "trigger_meme cfg s emotion t =
     (s\<lparr>meme_triggered := True, last_meme_time := t\<rparr>,
      Trigger emotion (meme_display_duration cfg) (sound_enabled s))"

text \<open>
  One call of \<open>_process_emotion(emotion, confidence)\<close>. The method reads the clock on
  line 109 (\<open>ob_time\<close>) and, only when it triggers, a second time on line 153 inside
  \<open>_trigger_meme\<close> (\<open>ob_trigger_time\<close>).
\<close>

record observation =
  ob_emotion :: string
  ob_confidence :: real
  ob_time :: real
  ob_trigger_time :: real

text \<open>Lines 112-113: a reading below the confidence threshold becomes \<open>neutral\<close>.\<close>

definition coerced :: "config \<Rightarrow> observation \<Rightarrow> string" where
  "coerced cfg ob =
     (if ob_confidence ob < confidence_threshold cfg then ''neutral'' else ob_emotion ob)"

text \<open>Line 128, the local \<open>cooldown_ok\<close>.\<close>

definition cooldown_ok :: "config \<Rightarrow> state \<Rightarrow> real \<Rightarrow> bool" where
  "cooldown_ok cfg s current_time \<longleftrightarrow> current_time - last_meme_time s \<ge> meme_cooldown cfg"

text \<open>Lines 107-136. The result is the new state and the trigger event, if one fired.\<close>

definition process_emotion :: "config \<Rightarrow> state \<Rightarrow> observation \<Rightarrow> state \<times> effect option" where
  "process_emotion cfg s ob =
     (let current_time = ob_time ob;
          emotion = coerced cfg ob
      in if emotion \<noteq> current_emotion s then
           (s\<lparr>current_emotion := emotion, emotion_start_time := Some current_time,
              meme_triggered := False\<rparr>, None)
         else
           (case emotion_start_time s of
              None \<Rightarrow> (s\<lparr>emotion_start_time := Some current_time\<rparr>, None)
            | Some start \<Rightarrow>
                (let emotion_duration = current_time - start
                 in if emotion \<noteq> ''neutral'' \<and> emotion_duration \<ge> emotion_hold_time cfg
                       \<and> \<not> meme_triggered s \<and> cooldown_ok cfg s current_time
                    then (case trigger_meme cfg s emotion (ob_trigger_time ob) of
                            (s', ev) \<Rightarrow> (s', Some ev))
                    else (s, None))))"

text \<open>
  \<open>_handle_key(key, current_emotion)\<close>, lines 190-208. \<open>key\<close> is the key code
  (\<open>cv2.waitKey(1) & 0xFF\<close>), \<open>detected\<close> the emotion the classifier returned in this
  loop iteration (the method's parameter, not the attribute), and \<open>t\<close> the clock value
  read by \<open>_trigger_meme\<close> if the key is \<open>m\<close>. The first component of the result is the
  method's return value: \<open>False\<close> leaves the main loop.
\<close>

definition handle_key :: "config \<Rightarrow> state \<Rightarrow> nat \<Rightarrow> string \<Rightarrow> real \<Rightarrow> bool \<times> state \<times> effect list" where
  "handle_key cfg s key detected t =
     (if key = 27 then (False, s, [])
      else if key = 114 \<or> key = 82 then
        (True, s\<lparr>emotion_start_time := None, meme_triggered := False\<rparr>, [])
      else if key = 109 \<or> key = 77 then
        (let emotion = (if detected \<noteq> ''neutral'' then detected else ''happy'')
         in case trigger_meme cfg s emotion t of (s', ev) \<Rightarrow> (True, s', [ev]))
      else if key = 115 \<or> key = 83 then
        (let s' = s\<lparr>sound_enabled := \<not> sound_enabled s\<rparr>
         in (True, s', if \<not> sound_enabled s' then [StopAudio] else []))
      else (True, s, []))"

text \<open>
  A sequence of \<open>_process_emotion\<close> calls. Each trigger event is returned with the
  time \<open>ob_time\<close> of the call that fired it.
\<close>

fun observe_all :: "config \<Rightarrow> state \<Rightarrow> observation list \<Rightarrow> state \<times> (real \<times> effect) list" where
  "observe_all cfg s [] = (s, [])"
| "observe_all cfg s (ob # obs) =
     (case process_emotion cfg s ob of
        (s', r) \<Rightarrow>
          (case observe_all cfg s' obs of
             (s'', fires) \<Rightarrow>
               (s'', (case r of None \<Rightarrow> [] | Some ev \<Rightarrow> [(ob_time ob, ev)]) @ fires)))"

text \<open>
  The main loop of \<open>run\<close> (lines 71-100): every iteration classifies a frame, calls
  \<open>_process_emotion\<close> and then \<open>_handle_key\<close> with the emotion the classifier
  returned, and stops when the key handler returns \<open>False\<close>. A frame of the model is
  the observation, the key code, and the clock value for a manual trigger; the list
  ends where the camera stops delivering frames.
\<close>

fun main_loop :: "config \<Rightarrow> state \<Rightarrow> (observation \<times> nat \<times> real) list \<Rightarrow> state \<times> effect list" where
  "main_loop cfg s [] = (s, [])"
| "main_loop cfg s ((ob, key, t) # frames) =
     (case process_emotion cfg s ob of
        (s1, r) \<Rightarrow>
          (case handle_key cfg s1 key (ob_emotion ob) t of
             (continue, s2, evs) \<Rightarrow>
               (let out = (case r of None \<Rightarrow> [] | Some ev \<Rightarrow> [ev]) @ evs
                in if continue then
                     (case main_loop cfg s2 frames of (s3, rest) \<Rightarrow> (s3, out @ rest))
                   else (s2, out))))"

section \<open>The audio player's volume\<close>

text \<open>
  Python's two-argument \<open>max(a, b)\<close> returns \<open>b\<close> only when \<open>b > a\<close>, and
  \<open>min(a, b)\<close> returns \<open>b\<close> only when \<open>b < a\<close>.
\<close>

definition py_max :: "real \<Rightarrow> real \<Rightarrow> real" where
  "py_max a b = (if b > a then b else a)"

definition py_min :: "real \<Rightarrow> real \<Rightarrow> real" where
  "py_min a b = (if b < a then b else a)"

text \<open>
  \<open>AudioPlayer.set_volume(volume)\<close>, line 90: the value handed to
  \<open>pygame.mixer.music.set_volume\<close>.
\<close>

definition set_volume :: "real \<Rightarrow> real" where
  "set_volume volume = py_max 0.0 (py_min 1.0 volume)"

section \<open>Asset lookup: \<open>meme_manager.py\<close> and \<open>audio_player.py\<close>\<close>

text \<open>
  \<open>str.lower()\<close> on the ASCII letters. Labels and directory names outside ASCII are
  not covered by the model.
\<close>

definition lower_chr :: "char \<Rightarrow> char" where
  "lower_chr c =
     (case map_of (zip ''ABCDEFGHIJKLMNOPQRSTUVWXYZ'' ''abcdefghijklmnopqrstuvwxyz'') c of
        Some d \<Rightarrow> d
      | None \<Rightarrow> c)"

definition str_lower :: "string \<Rightarrow> string" where
  "str_lower s = map lower_chr s"

text \<open>
  \<open>random.choice(seq)\<close> on a non-empty list; the random draw is the parameter \<open>r\<close>.
  Both call sites guard against the empty list.
\<close>

definition random_choice :: "nat \<Rightarrow> 'a list \<Rightarrow> 'a" where
  "random_choice r xs = xs ! (r mod length xs)"

text \<open>
  \<open>MemeManager.get_random_meme(emotion)\<close>, lines 57-68. \<open>meme_cache\<close> is the dict from
  a lower-cased directory name to its list of image paths, kept as an association list
  in insertion order. A list is truthy when it is not empty.
\<close>

definition get_random_meme :: "(string \<times> string list) list \<Rightarrow> string \<Rightarrow> nat \<Rightarrow> string option" where
  "get_random_meme meme_cache emotion0 r =
     (let emotion = str_lower emotion0
      in case map_of meme_cache emotion of
           Some (m # ms) \<Rightarrow> Some (random_choice r (m # ms))
         | _ \<Rightarrow>
           (case map_of meme_cache ''neutral'' of
              Some (m # ms) \<Rightarrow> Some (random_choice r (m # ms))
            | _ \<Rightarrow> None))"

text \<open>
  \<open>MemeManager.display_meme(emotion, duration)\<close>, lines 70-91: what the caller does
  with the lookup. Without a meme it prints a message and returns.
\<close>

datatype presenter_action = CloseCurrentDisplay | DisplayWindow string string real

definition display_meme :: "(string \<times> string list) list \<Rightarrow> string \<Rightarrow> real \<Rightarrow> nat \<Rightarrow> presenter_action list" where
  "display_meme meme_cache emotion duration r =
     (case get_random_meme meme_cache emotion r of
        None \<Rightarrow> []
      | Some meme_path \<Rightarrow> [CloseCurrentDisplay, DisplayWindow meme_path emotion duration])"

text \<open>
  \<open>AudioPlayer.play_emotion_sound(emotion)\<close>, lines 45-64. \<open>sound_cache\<close> is the dict
  from a lower-cased file stem to the sound file, in insertion order (the order the
  \<open>for\<close> loop visits). Python's \<open>a in b\<close> on strings is \<open>sublist a b\<close>. The result is
  the path handed to \<open>pygame.mixer.music.load\<close>; \<open>None\<close> is the early \<open>return\<close> of
  line 62, where nothing is played.
\<close>

definition play_emotion_sound :: "(string \<times> string) list \<Rightarrow> string \<Rightarrow> string option" where
  "play_emotion_sound sound_cache emotion0 =
     (let emotion = str_lower emotion0
      in if emotion \<notin> set (map fst sound_cache) then
           (case find (\<lambda>cached_emotion. sublist emotion cached_emotion \<or> sublist cached_emotion emotion)
                   (map fst sound_cache) of
              Some cached_emotion \<Rightarrow> map_of sound_cache cached_emotion
            | None \<Rightarrow> None)
         else map_of sound_cache emotion)"

text \<open>
  The three-tier resolution as section 4.2 of the specification words it, for
  comparison with the two functions above: an exact match on the lower-cased label,
  then the first known label that contains the request or is contained in it, then
  the \<open>neutral\<close> bucket, then nothing. A library maps a label to its list of assets;
  an audio library has one asset per label.
\<close>

definition spec_bucket :: "(string \<times> 'a list) list \<Rightarrow> string \<Rightarrow> 'a list" where
  "spec_bucket lib k = (case map_of lib k of Some b \<Rightarrow> b | None \<Rightarrow> [])"

definition resolve_spec :: "(string \<times> 'a list) list \<Rightarrow> string \<Rightarrow> nat \<Rightarrow> 'a option" where
  "resolve_spec lib label r =
     (let l = str_lower label
      in if spec_bucket lib l \<noteq> [] then Some (random_choice r (spec_bucket lib l))
         else
           (case find (\<lambda>k. (sublist l k \<or> sublist k l) \<and> spec_bucket lib k \<noteq> []) (map fst lib) of
              Some k \<Rightarrow> Some (random_choice r (spec_bucket lib k))
            | None \<Rightarrow>
                if spec_bucket lib ''neutral'' \<noteq> []
                then Some (random_choice r (spec_bucket lib ''neutral''))
                else None))"

definition audio_library :: "(string \<times> string) list \<Rightarrow> (string \<times> string list) list" where
  "audio_library sound_cache = map (\<lambda>(k, v). (k, [v])) sound_cache"

section \<open>Auxiliary notions for the statements\<close>

text \<open>An observation written as a tuple, to keep concrete runs readable.\<close>

abbreviation observed :: "string \<Rightarrow> real \<Rightarrow> real \<Rightarrow> real \<Rightarrow> observation" where
  "observed e c t tt \<equiv>
     \<lparr>ob_emotion = e, ob_confidence = c, ob_time = t, ob_trigger_time = tt\<rparr>"

text \<open>
  \<open>spaced_from c prev ts\<close>: every time of \<open>ts\<close> lies at least \<open>c\<close> after the one before
  it, and the first at least \<open>c\<close> after \<open>prev\<close>.
\<close>

fun spaced_from :: "real \<Rightarrow> real \<Rightarrow> real list \<Rightarrow> bool" where
  "spaced_from c prev [] = True"
| "spaced_from c prev (t # ts) = (c \<le> t - prev \<and> spaced_from c t ts)"

section \<open>Properties of the volume clamp\<close>

text \<open>
  C10. For every real input \<open>v\<close>, the value \<open>set_volume\<close> passes to the audio backend lies
  in the interval from 0 to 1: it is 0 for inputs below 0, 1 for inputs above 1, and the
  input itself otherwise.
\<close>

theorem set_volume_clamped:
  "0 \<le> set_volume v \<and> set_volume v \<le> 1 \<and>
   set_volume v = (if v < 0 then 0 else if 1 < v then 1 else v)"
  by (simp add: set_volume_def py_max_def py_min_def)

section \<open>One call of \<open>_process_emotion\<close>, branch by branch\<close>

lemma process_emotion_change:
  "coerced cfg ob \<noteq> current_emotion s \<Longrightarrow>
   process_emotion cfg s ob =
     (s\<lparr>current_emotion := coerced cfg ob, emotion_start_time := Some (ob_time ob),
        meme_triggered := False\<rparr>, None)"
  by (simp add: process_emotion_def Let_def)

lemma process_emotion_unset:
  "coerced cfg ob = current_emotion s \<Longrightarrow> emotion_start_time s = None \<Longrightarrow>
   process_emotion cfg s ob = (s\<lparr>emotion_start_time := Some (ob_time ob)\<rparr>, None)"
  by (simp add: process_emotion_def Let_def)

lemma process_emotion_same:
  "coerced cfg ob = current_emotion s \<Longrightarrow> emotion_start_time s = Some start \<Longrightarrow>
   process_emotion cfg s ob =
     (if current_emotion s \<noteq> ''neutral'' \<and> emotion_hold_time cfg \<le> ob_time ob - start
         \<and> \<not> meme_triggered s \<and> meme_cooldown cfg \<le> ob_time ob - last_meme_time s
      then (s\<lparr>meme_triggered := True, last_meme_time := ob_trigger_time ob\<rparr>,
            Some (Trigger (current_emotion s) (meme_display_duration cfg) (sound_enabled s)))
      else (s, None))"
  by (simp add: process_emotion_def Let_def cooldown_ok_def trigger_meme_def)

text \<open>What is known when a call fired, and when it did not.\<close>

lemma process_emotion_fire:
  assumes "process_emotion cfg s ob = (s', Some ev)"
  shows "coerced cfg ob = current_emotion s \<and> current_emotion s \<noteq> ''neutral''
    \<and> (\<exists>start. emotion_start_time s = Some start \<and> emotion_hold_time cfg \<le> ob_time ob - start)
    \<and> \<not> meme_triggered s \<and> meme_cooldown cfg \<le> ob_time ob - last_meme_time s
    \<and> s' = s\<lparr>meme_triggered := True, last_meme_time := ob_trigger_time ob\<rparr>
    \<and> ev = Trigger (current_emotion s) (meme_display_duration cfg) (sound_enabled s)"
proof (cases "coerced cfg ob = current_emotion s")
  case False
  with assms show ?thesis by (simp add: process_emotion_change)
next
  case same: True
  show ?thesis
  proof (cases "emotion_start_time s")
    case None
    with assms same show ?thesis by (simp add: process_emotion_unset)
  next
    case (Some start)
    with assms same show ?thesis
      by (simp add: process_emotion_same split: if_splits)
  qed
qed

lemma process_emotion_quiet:
  assumes "process_emotion cfg s ob = (s', None)"
  shows "current_emotion s' = coerced cfg ob \<and> last_meme_time s' = last_meme_time s
    \<and> (coerced cfg ob = current_emotion s \<longrightarrow> meme_triggered s' = meme_triggered s)"
proof (cases "coerced cfg ob = current_emotion s")
  case False
  with assms show ?thesis by (auto simp add: process_emotion_change)
next
  case same: True
  show ?thesis
  proof (cases "emotion_start_time s")
    case None
    with assms same show ?thesis by (auto simp add: process_emotion_unset)
  next
    case (Some start)
    with assms same show ?thesis
      by (auto simp add: process_emotion_same split: if_splits)
  qed
qed

lemma process_emotion_start:
  assumes "emotion_start_time s = Some t0" and "process_emotion cfg s ob = (s', r)"
  shows "emotion_start_time s' = Some t0 \<or> emotion_start_time s' = Some (ob_time ob)"
proof (cases "coerced cfg ob = current_emotion s")
  case False
  with assms show ?thesis by (auto simp add: process_emotion_change)
next
  case True
  with assms show ?thesis by (auto simp add: process_emotion_same split: if_splits)
qed

lemma process_emotion_label:
  "process_emotion cfg s ob = (s', Some ev) \<Longrightarrow> trigger_label ev \<noteq> Some ''neutral''"
  using process_emotion_fire[of cfg s ob s' ev] by auto

lemma handle_key_labels:
  "\<forall>e\<in>set (snd (snd (handle_key cfg s key detected t))). trigger_label e \<noteq> Some ''neutral''"
  by (simp add: handle_key_def trigger_meme_def Let_def)

section \<open>Runs of observations\<close>

text \<open>Once the episode has triggered, it stays silent while the label stays.\<close>

lemma triggered_episode_silent:
  "meme_triggered s \<Longrightarrow> current_emotion s = l \<Longrightarrow> \<forall>ob\<in>set obs. coerced cfg ob = l \<Longrightarrow>
   snd (observe_all cfg s obs) = []"
proof (induction obs arbitrary: s)
  case Nil
  then show ?case by simp
next
  case (Cons ob obs)
  obtain s' r where step: "process_emotion cfg s ob = (s', r)"
    by (cases "process_emotion cfg s ob")
  from Cons.prems have same: "coerced cfg ob = current_emotion s" by simp
  have quiet: "r = None"
  proof (cases r)
    case (Some ev)
    with step process_emotion_fire[of cfg s ob s' ev] Cons.prems(1) show ?thesis by simp
  qed simp
  with step same Cons.prems process_emotion_quiet[of cfg s ob s']
  have "meme_triggered s'" "current_emotion s' = l" by auto
  with Cons.IH[of s'] Cons.prems(3) have "snd (observe_all cfg s' obs) = []" by simp
  with step quiet show ?case by (auto split: prod.splits)
qed

lemma spaced_from_earlier: "spaced_from c a ts \<Longrightarrow> b \<le> a \<Longrightarrow> spaced_from c b ts"
  by (cases ts) auto

lemma spaced_from_nth:
  "spaced_from c prev ts \<Longrightarrow> Suc i < length ts \<Longrightarrow> c \<le> ts ! Suc i - ts ! i"
proof (induction ts arbitrary: prev i)
  case Nil
  then show ?case by simp
next
  case (Cons t ts)
  show ?case
  proof (cases i)
    case 0
    with Cons.prems show ?thesis by (cases ts) auto
  next
    case (Suc j)
    with Cons.prems Cons.IH[of t j] show ?thesis by simp
  qed
qed

text \<open>
  The fire times of a run are spaced by the cooldown, counted from the state's
  \<open>last_meme_time\<close>, when the clock read inside \<open>_trigger_meme\<close> is not earlier than
  the one read at the start of the same call.
\<close>

lemma observe_all_spaced:
  "\<forall>ob\<in>set obs. ob_time ob \<le> ob_trigger_time ob \<Longrightarrow>
   spaced_from (meme_cooldown cfg) (last_meme_time s) (map fst (snd (observe_all cfg s obs)))"
proof (induction obs arbitrary: s)
  case Nil
  then show ?case by simp
next
  case (Cons ob obs)
  obtain s' r where step: "process_emotion cfg s ob = (s', r)"
    by (cases "process_emotion cfg s ob")
  from Cons.prems Cons.IH[of s']
  have ih: "spaced_from (meme_cooldown cfg) (last_meme_time s')
              (map fst (snd (observe_all cfg s' obs)))"
    by simp
  show ?case
  proof (cases r)
    case None
    with step process_emotion_quiet[of cfg s ob s'] ih show ?thesis
      by (auto split: prod.splits)
  next
    case (Some ev)
    with step process_emotion_fire[of cfg s ob s' ev]
    have cd: "meme_cooldown cfg \<le> ob_time ob - last_meme_time s"
      and last: "last_meme_time s' = ob_trigger_time ob" by auto
    from Cons.prems last have "ob_time ob \<le> last_meme_time s'" by simp
    with ih have "spaced_from (meme_cooldown cfg) (ob_time ob)
                    (map fst (snd (observe_all cfg s' obs)))"
      by (rule spaced_from_earlier)
    with step Some cd show ?thesis by (auto split: prod.splits)
  qed
qed

text \<open>
  With an episode that started at or after \<open>T\<close>, and no clock value before \<open>T\<close>, every
  fire of the run is at least the hold time after \<open>T\<close>.
\<close>

lemma fires_after_start:
  "emotion_start_time s = Some t0 \<Longrightarrow> T \<le> t0 \<Longrightarrow> \<forall>ob\<in>set obs. T \<le> ob_time ob \<Longrightarrow>
   \<forall>f\<in>set (snd (observe_all cfg s obs)). emotion_hold_time cfg \<le> fst f - T"
proof (induction obs arbitrary: s t0)
  case Nil
  then show ?case by simp
next
  case (Cons ob obs)
  obtain s' r where step: "process_emotion cfg s ob = (s', r)"
    by (cases "process_emotion cfg s ob")
  from process_emotion_start[OF Cons.prems(1) step] Cons.prems
  obtain t1 where "emotion_start_time s' = Some t1" "T \<le> t1" by auto
  with Cons.IH[of s' t1] Cons.prems
  have rest: "\<forall>f\<in>set (snd (observe_all cfg s' obs)). emotion_hold_time cfg \<le> fst f - T"
    by simp
  show ?case
  proof (cases r)
    case None
    with step rest show ?thesis by (auto split: prod.splits)
  next
    case (Some ev)
    with step process_emotion_fire[of cfg s ob s' ev] Cons.prems(1,2)
    have "emotion_hold_time cfg \<le> ob_time ob - T" by auto
    with step Some rest show ?thesis by (auto split: prod.splits)
  qed
qed

lemma random_choice_in: "xs \<noteq> [] \<Longrightarrow> random_choice r xs \<in> set xs"
  by (simp add: random_choice_def)

section \<open>The manual trigger\<close>

text \<open>
  C1, as the specification states it, fails: the key \<open>m\<close> runs \<open>_trigger_meme\<close>, the
  same method a fired observation runs, and that method sets \<open>meme_triggered\<close> and
  \<open>last_meme_time\<close>. From the initial state, a manual trigger at clock value 100 changes
  both fields.
\<close>

theorem force_trigger_alters_state:
  "meme_triggered (fst (snd (handle_key default_config init_state 109 ''happy'' 100)))
     \<noteq> meme_triggered init_state
   \<and> last_meme_time (fst (snd (handle_key default_config init_state 109 ''happy'' 100)))
     \<noteq> last_meme_time init_state"
  by (simp add: handle_key_def trigger_meme_def Let_def init_state_def)

text \<open>
  C1, amended. The manual trigger (key \<open>m\<close> or \<open>M\<close>) keeps the loop running and emits
  exactly one trigger event, for the detected emotion or for \<open>happy\<close> when the detected
  emotion is \<open>neutral\<close>. It leaves \<open>current_emotion\<close> and \<open>emotion_start_time\<close> as they
  were, sets \<open>meme_triggered\<close> to true and sets \<open>last_meme_time\<close> to the clock value
  read during the call.
\<close>

theorem force_trigger_state_effect:
  assumes "key = 109 \<or> key = 77"
  shows "fst (handle_key cfg s key detected t) = True
    \<and> snd (snd (handle_key cfg s key detected t)) =
        [Trigger (if detected \<noteq> ''neutral'' then detected else ''happy'')
           (meme_display_duration cfg) (sound_enabled s)]
    \<and> current_emotion (fst (snd (handle_key cfg s key detected t))) = current_emotion s
    \<and> emotion_start_time (fst (snd (handle_key cfg s key detected t))) = emotion_start_time s
    \<and> meme_triggered (fst (snd (handle_key cfg s key detected t))) = True
    \<and> last_meme_time (fst (snd (handle_key cfg s key detected t))) = t"
  using assms by (auto simp add: handle_key_def trigger_meme_def Let_def)

theorem force_trigger_state_effect_witness:
  "snd (snd (handle_key default_config init_state 109 ''neutral'' 100)) =
       [Trigger ''happy'' 4 True]
   \<and> current_emotion (fst (snd (handle_key default_config init_state 109 ''neutral'' 100)))
       = ''neutral''
   \<and> emotion_start_time (fst (snd (handle_key default_config init_state 109 ''neutral'' 100)))
       = None
   \<and> meme_triggered (fst (snd (handle_key default_config init_state 109 ''neutral'' 100)))
   \<and> last_meme_time (fst (snd (handle_key default_config init_state 109 ''neutral'' 100)))
       = 100"
proof -
  have k: "(109::nat) = 109 \<or> (109::nat) = 77" by simp
  from force_trigger_state_effect[OF k, of default_config init_state "''neutral''" 100]
  show ?thesis by (simp add: default_config_def init_state_def)
qed

section \<open>The cooldown before the first trigger\<close>



section \<open>The scenario of three \<open>happy\<close> observations\<close>

text \<open>
  C3. With threshold 0.4, hold 2.0 and cooldown 5.0, from the initial state, the
  observations (\<open>happy\<close>, 0.9) at 0, 0.5 and 2.1 seconds after the first clock value
  \<open>t0\<close> produce exactly one trigger event, at the third observation, for \<open>happy\<close>. The
  clock values are those of \<open>time.time()\<close>, so the third is not below the cooldown;
  what the clock reads inside \<open>_trigger_meme\<close> does not matter.
\<close>

theorem happy_scenario_fires_once:
  assumes "meme_cooldown default_config \<le> t0 + 2.1"
  shows "snd (observe_all default_config init_state
     [observed ''happy'' 0.9 t0 a, observed ''happy'' 0.9 (t0 + 0.5) b,
      observed ''happy'' 0.9 (t0 + 2.1) c]) =
   [(t0 + 2.1, Trigger ''happy'' 4.0 True)]"
  using assms
  by (simp add: process_emotion_def coerced_def cooldown_ok_def default_config_def
      init_state_def trigger_meme_def Let_def)

theorem happy_scenario_fires_once_witness:
  "snd (observe_all default_config init_state
     [observed ''happy'' 0.9 1793000000 1793000000,
      observed ''happy'' 0.9 (1793000000 + 0.5) 1793000000.5,
      observed ''happy'' 0.9 (1793000000 + 2.1) 1793000002.2]) =
   [(1793000000 + 2.1, Trigger ''happy'' 4.0 True)]"
proof -
  have clock: "meme_cooldown default_config \<le> 1793000000 + 2.1"
    by (simp add: default_config_def)
  from happy_scenario_fires_once[OF clock, of 1793000000 "1793000000.5" "1793000002.2"]
  show ?thesis by simp
qed

section \<open>Asset resolution\<close>

text \<open>
  C4, as the specification states it, fails for both libraries. The image lookup has
  no substring tier: with the buckets \<open>disgusted\<close> and \<open>neutral\<close>, the request
  \<open>disgust\<close> gets the neutral image, where the three-tier resolution gives the
  \<open>disgusted\<close> one. The audio lookup has no neutral tier: with the single sound
  \<open>neutral\<close>, the request \<open>angry\<close> plays nothing, where the three-tier resolution
  gives the neutral sound.
\<close>

theorem asset_resolution_not_three_tier:
  "get_random_meme [(''disgusted'', [''d.png'']), (''neutral'', [''n.png''])] ''disgust'' 0
     = Some ''n.png''
   \<and> resolve_spec [(''disgusted'', [''d.png'']), (''neutral'', [''n.png''])] ''disgust'' 0
     = Some ''d.png''
   \<and> play_emotion_sound [(''neutral'', ''n.mp3'')] ''angry'' = None
   \<and> resolve_spec (audio_library [(''neutral'', ''n.mp3'')]) ''angry'' 0 = Some ''n.mp3''"
  by (simp add: get_random_meme_def resolve_spec_def play_emotion_sound_def audio_library_def
      spec_bucket_def str_lower_def lower_chr_def random_choice_def Let_def
      sublist_code prefix_code)

text \<open>
  C4, amended. Each library resolves in two tiers. Images: a non-empty bucket for the
  lower-cased label gives one of its images; otherwise a non-empty \<open>neutral\<close> bucket
  gives one of its images; otherwise the result is none and \<open>display_meme\<close> does
  nothing. Sounds: a sound stored under the lower-cased label is played; otherwise the
  sound of the first known label, in the library's order, that contains the request or
  is contained in it; otherwise nothing is played.
\<close>

theorem asset_resolution_tiers:
  "(map_of mc (str_lower e) = Some b \<and> b \<noteq> [] \<longrightarrow>
      (\<exists>p\<in>set b. get_random_meme mc e r = Some p))
   \<and> ((map_of mc (str_lower e) = None \<or> map_of mc (str_lower e) = Some [])
        \<and> map_of mc ''neutral'' = Some nb \<and> nb \<noteq> [] \<longrightarrow>
      (\<exists>p\<in>set nb. get_random_meme mc e r = Some p))
   \<and> ((map_of mc (str_lower e) = None \<or> map_of mc (str_lower e) = Some [])
        \<and> (map_of mc ''neutral'' = None \<or> map_of mc ''neutral'' = Some []) \<longrightarrow>
      get_random_meme mc e r = None \<and> display_meme mc e d r = [])
   \<and> (map_of sc (str_lower e) = Some p \<longrightarrow> play_emotion_sound sc e = Some p)
   \<and> (map_of sc (str_lower e) = None
        \<and> find (\<lambda>k. sublist (str_lower e) k \<or> sublist k (str_lower e)) (map fst sc) = Some k \<longrightarrow>
      play_emotion_sound sc e = map_of sc k \<and> map_of sc k \<noteq> None)
   \<and> (map_of sc (str_lower e) = None
        \<and> find (\<lambda>k. sublist (str_lower e) k \<or> sublist k (str_lower e)) (map fst sc) = None \<longrightarrow>
      play_emotion_sound sc e = None)"
proof -
  have img1: "map_of mc (str_lower e) = Some b \<and> b \<noteq> [] \<longrightarrow>
      (\<exists>p\<in>set b. get_random_meme mc e r = Some p)"
    using random_choice_in[of b r]
    by (auto simp add: get_random_meme_def Let_def split: list.splits)
  have img2: "(map_of mc (str_lower e) = None \<or> map_of mc (str_lower e) = Some [])
        \<and> map_of mc ''neutral'' = Some nb \<and> nb \<noteq> [] \<longrightarrow>
      (\<exists>p\<in>set nb. get_random_meme mc e r = Some p)"
    using random_choice_in[of nb r]
    by (auto simp add: get_random_meme_def Let_def split: list.splits)
  have img3: "(map_of mc (str_lower e) = None \<or> map_of mc (str_lower e) = Some [])
        \<and> (map_of mc ''neutral'' = None \<or> map_of mc ''neutral'' = Some []) \<longrightarrow>
      get_random_meme mc e r = None \<and> display_meme mc e d r = []"
    by (auto simp add: get_random_meme_def display_meme_def Let_def)
  have key_iff: "\<And>x. x \<in> set (map fst sc) \<longleftrightarrow> map_of sc x \<noteq> None"
    by (simp add: map_of_eq_None_iff)
  have snd1: "map_of sc (str_lower e) = Some p \<longrightarrow> play_emotion_sound sc e = Some p"
    using key_iff[of "str_lower e"] by (auto simp add: play_emotion_sound_def Let_def)
  have snd2: "map_of sc (str_lower e) = None
        \<and> find (\<lambda>k. sublist (str_lower e) k \<or> sublist k (str_lower e)) (map fst sc) = Some k \<longrightarrow>
      play_emotion_sound sc e = map_of sc k \<and> map_of sc k \<noteq> None"
  proof (intro impI, elim conjE)
    assume miss: "map_of sc (str_lower e) = None"
      and hit: "find (\<lambda>k. sublist (str_lower e) k \<or> sublist k (str_lower e)) (map fst sc) = Some k"
    from hit have "k \<in> set (map fst sc)"
      by (auto simp add: find_Some_iff)
    with key_iff[of k] have "map_of sc k \<noteq> None" by simp
    moreover from miss key_iff[of "str_lower e"] hit
    have "play_emotion_sound sc e = map_of sc k"
      by (simp add: play_emotion_sound_def Let_def)
    ultimately show "play_emotion_sound sc e = map_of sc k \<and> map_of sc k \<noteq> None" by simp
  qed
  have snd3: "map_of sc (str_lower e) = None
        \<and> find (\<lambda>k. sublist (str_lower e) k \<or> sublist k (str_lower e)) (map fst sc) = None \<longrightarrow>
      play_emotion_sound sc e = None"
    using key_iff[of "str_lower e"] by (simp add: play_emotion_sound_def Let_def)
  from img1 img2 img3 snd1 snd2 snd3 show ?thesis by blast
qed

theorem asset_resolution_tiers_witness:
  "get_random_meme [(''happy'', [''h1.png'', ''h2.png'']), (''sad'', []), (''neutral'', [''n.png''])]
       ''HAPPY'' 1 = Some ''h2.png''
   \<and> get_random_meme [(''happy'', [''h1.png'', ''h2.png'']), (''sad'', []), (''neutral'', [''n.png''])]
       ''Sad'' 1 = Some ''n.png''
   \<and> get_random_meme [(''sad'', [])] ''angry'' 0 = None
   \<and> display_meme [(''sad'', [])] ''angry'' 4 0 = []
   \<and> play_emotion_sound [(''happy'', ''happy.mp3''), (''disgusted'', ''disgusted.wav'')]
       ''Happy'' = Some ''happy.mp3''
   \<and> play_emotion_sound [(''happy'', ''happy.mp3''), (''disgusted'', ''disgusted.wav'')]
       ''disgust'' = Some ''disgusted.wav''
   \<and> play_emotion_sound [(''happy'', ''happy.mp3''), (''disgusted'', ''disgusted.wav'')]
       ''angry'' = None"
proof -
  let ?mc = "[(''happy'', [''h1.png'', ''h2.png'']), (''sad'', []), (''neutral'', [''n.png''])]"
  let ?sc = "[(''happy'', ''happy.mp3''), (''disgusted'', ''disgusted.wav'')]"
  have low: "str_lower ''HAPPY'' = ''happy''" "str_lower ''Sad'' = ''sad''"
    "str_lower ''angry'' = ''angry''" "str_lower ''Happy'' = ''happy''"
    "str_lower ''disgust'' = ''disgust''"
    by (simp_all add: str_lower_def lower_chr_def)
  have t1: "\<exists>p\<in>set [''h1.png'', ''h2.png'']. get_random_meme ?mc ''HAPPY'' 1 = Some p"
    using asset_resolution_tiers[of ?mc "''HAPPY''" "[''h1.png'', ''h2.png'']" 1] low
    by simp
  have t2: "\<exists>p\<in>set [''n.png'']. get_random_meme ?mc ''Sad'' 1 = Some p"
    using asset_resolution_tiers[of ?mc "''Sad''" _ 1 "[''n.png'']"] low
    by simp
  have t3: "get_random_meme [(''sad'', [])] ''angry'' 0 = None
      \<and> display_meme [(''sad'', [])] ''angry'' 4 0 = []"
    using asset_resolution_tiers[of "[(''sad'', [])]" "''angry''" _ 0 _ 4] low
    by simp
  have t4: "play_emotion_sound ?sc ''Happy'' = Some ''happy.mp3''"
    using asset_resolution_tiers[of _ "''Happy''" _ _ _ _ ?sc "''happy.mp3''"] low
    by simp
  have t5: "play_emotion_sound ?sc ''disgust'' = Some ''disgusted.wav''"
    using asset_resolution_tiers[of _ "''disgust''" _ _ _ _ ?sc _ "''disgusted''"] low
    by (simp add: sublist_code prefix_code)
  have t6: "play_emotion_sound ?sc ''angry'' = None"
    using asset_resolution_tiers[of _ "''angry''" _ _ _ _ ?sc] low
    by (simp add: sublist_code prefix_code)
  from t1 have "get_random_meme ?mc ''HAPPY'' 1 = Some ''h2.png''"
    by (simp add: get_random_meme_def low random_choice_def)
  moreover from t2 have "get_random_meme ?mc ''Sad'' 1 = Some ''n.png''" by simp
  ultimately show ?thesis using t3 t4 t5 t6 by simp
qed

section \<open>One trigger per episode\<close>

text \<open>
  C5. In every run of \<open>_process_emotion\<close> calls whose observations all carry the same
  label after the threshold coercion (an uninterrupted episode), from every state, at
  most one trigger event is emitted. The state is arbitrary, so the run may be the
  remainder of an episode: after a fire, no further call of the episode fires.
\<close>

theorem episode_fires_at_most_once:
  assumes "\<forall>ob\<in>set obs. coerced cfg ob = l"
  shows "length (snd (observe_all cfg s obs)) \<le> 1"
  using assms
proof (induction obs arbitrary: s)
  case Nil
  then show ?case by simp
next
  case (Cons ob obs)
  obtain s' r where step: "process_emotion cfg s ob = (s', r)"
    by (cases "process_emotion cfg s ob")
  show ?case
  proof (cases r)
    case None
    with step Cons.IH[of s'] Cons.prems show ?thesis by (auto split: prod.splits)
  next
    case (Some ev)
    with step process_emotion_fire[of cfg s ob s' ev] Cons.prems
    have "meme_triggered s'" "current_emotion s' = l" by auto
    with triggered_episode_silent[of s' l obs cfg] Cons.prems
    have "snd (observe_all cfg s' obs) = []" by simp
    with step Some show ?thesis by (auto split: prod.splits)
  qed
qed

theorem episode_fires_at_most_once_witness:
  "snd (observe_all default_config init_state
     [observed ''happy'' 0.9 1000 1000, observed ''happy'' 0.9 1002.1 1002.2,
      observed ''happy'' 0.9 1005 1005, observed ''happy'' 0.9 1010 1010])
     = [(1002.1, Trigger ''happy'' 4 True)]
   \<and> length (snd (observe_all default_config init_state
     [observed ''happy'' 0.9 1000 1000, observed ''happy'' 0.9 1002.1 1002.2,
      observed ''happy'' 0.9 1005 1005, observed ''happy'' 0.9 1010 1010])) \<le> 1"
proof -
  let ?obs = "[observed ''happy'' 0.9 1000 1000, observed ''happy'' 0.9 1002.1 1002.2,
      observed ''happy'' 0.9 1005 1005, observed ''happy'' 0.9 1010 1010]"
  have same: "\<forall>ob\<in>set ?obs. coerced default_config ob = ''happy''"
    by (simp add: coerced_def default_config_def)
  have run: "snd (observe_all default_config init_state ?obs) = [(1002.1, Trigger ''happy'' 4 True)]"
    by (simp add: process_emotion_def coerced_def cooldown_ok_def default_config_def
      init_state_def trigger_meme_def Let_def)
  from episode_fires_at_most_once[OF same, of init_state] run show ?thesis by simp
qed

section \<open>Spacing of consecutive triggers\<close>

text \<open>
  C6, as the specification states it, fails: \<open>_trigger_meme\<close> stores a second reading
  of \<open>time.time()\<close> in \<open>last_meme_time\<close>, and nothing keeps that reading from being
  earlier than the one taken at the start of the call. When the clock is set back ten
  seconds between the two readings of a firing call and forward again afterwards, the
  next episode fires 2.9 seconds after the first fire, with a cooldown of 5.
\<close>

theorem fires_too_close_after_clock_step:
  "snd (observe_all default_config init_state
     [observed ''happy'' 0.9 1793000000 1793000000,
      observed ''happy'' 0.9 1793000002.1 1792999992.2,
      observed ''sad'' 0.9 1793000002.5 1793000002.5,
      observed ''sad'' 0.9 1793000005 1793000005])
     = [(1793000002.1, Trigger ''happy'' 4 True), (1793000005, Trigger ''sad'' 4 True)]
   \<and> (1793000005::real) - 1793000002.1 < meme_cooldown default_config"
  by (simp add: process_emotion_def coerced_def cooldown_ok_def default_config_def
      init_state_def trigger_meme_def Let_def)

text \<open>
  C6, amended. In every run of \<open>_process_emotion\<close> calls in which the clock value read
  inside \<open>_trigger_meme\<close> is not earlier than the value read at the start of the same
  call, from every state, two consecutive trigger events are at least \<open>meme_cooldown\<close>
  apart, whatever the labels in between, measured by the clock values at the start of
  the firing calls.
\<close>

theorem consecutive_fires_spaced:
  assumes "\<forall>ob\<in>set obs. ob_time ob \<le> ob_trigger_time ob"
    and "Suc i < length (snd (observe_all cfg s obs))"
  shows "meme_cooldown cfg \<le>
     fst (snd (observe_all cfg s obs) ! Suc i) - fst (snd (observe_all cfg s obs) ! i)"
proof -
  let ?fs = "snd (observe_all cfg s obs)"
  from assms(1) have "spaced_from (meme_cooldown cfg) (last_meme_time s) (map fst ?fs)"
    by (rule observe_all_spaced)
  moreover from assms(2) have "Suc i < length (map fst ?fs)" by simp
  ultimately have "meme_cooldown cfg \<le> map fst ?fs ! Suc i - map fst ?fs ! i"
    by (rule spaced_from_nth)
  with assms(2) show ?thesis by simp
qed

theorem consecutive_fires_spaced_witness:
  "snd (observe_all default_config init_state
     [observed ''happy'' 0.9 1000 1000, observed ''happy'' 0.9 1002.1 1002.2,
      observed ''sad'' 0.9 1003 1003, observed ''sad'' 0.9 1006 1006,
      observed ''sad'' 0.9 1008 1008.1])
     = [(1002.1, Trigger ''happy'' 4 True), (1008, Trigger ''sad'' 4 True)]
   \<and> meme_cooldown default_config \<le>
       fst (snd (observe_all default_config init_state
         [observed ''happy'' 0.9 1000 1000, observed ''happy'' 0.9 1002.1 1002.2,
          observed ''sad'' 0.9 1003 1003, observed ''sad'' 0.9 1006 1006,
          observed ''sad'' 0.9 1008 1008.1]) ! Suc 0)
     - fst (snd (observe_all default_config init_state
         [observed ''happy'' 0.9 1000 1000, observed ''happy'' 0.9 1002.1 1002.2,
          observed ''sad'' 0.9 1003 1003, observed ''sad'' 0.9 1006 1006,
          observed ''sad'' 0.9 1008 1008.1]) ! 0)"
proof -
  let ?obs = "[observed ''happy'' 0.9 1000 1000, observed ''happy'' 0.9 1002.1 1002.2,
      observed ''sad'' 0.9 1003 1003, observed ''sad'' 0.9 1006 1006,
      observed ''sad'' 0.9 1008 1008.1]"
  have clock: "\<forall>ob\<in>set ?obs. ob_time ob \<le> ob_trigger_time ob" by simp
  have run: "snd (observe_all default_config init_state ?obs)
      = [(1002.1, Trigger ''happy'' 4 True), (1008, Trigger ''sad'' 4 True)]"
    by (simp add: process_emotion_def coerced_def cooldown_ok_def default_config_def
      init_state_def trigger_meme_def Let_def)
  then have len: "Suc 0 < length (snd (observe_all default_config init_state ?obs))" by simp
  from consecutive_fires_spaced[OF clock len] run show ?thesis by simp
qed

section \<open>Low confidence is neutral\<close>

text \<open>
  C7. For every state, label, time and confidence \<open>c\<close> below the threshold, the call
  with (\<open>l\<close>, \<open>c\<close>) gives the same state and the same output as the call with
  (\<open>neutral\<close>, \<open>c'\<close>) at the same time, for any \<open>c'\<close>, and that output is no trigger.
\<close>

theorem low_confidence_as_neutral:
  assumes "c < confidence_threshold cfg"
  shows "process_emotion cfg s (observed l c now tt)
       = process_emotion cfg s (observed ''neutral'' c' now tt')
     \<and> snd (process_emotion cfg s (observed l c now tt)) = None"
  using assms
  by (simp add: process_emotion_def coerced_def Let_def split: option.splits)

theorem low_confidence_as_neutral_witness:
  "process_emotion default_config
      (init_state\<lparr>current_emotion := ''happy'', emotion_start_time := Some 1000\<rparr>)
      (observed ''happy'' 0.2 1003 1003)
   = process_emotion default_config
      (init_state\<lparr>current_emotion := ''happy'', emotion_start_time := Some 1000\<rparr>)
      (observed ''neutral'' 0.9 1003 1004)
   \<and> snd (process_emotion default_config
      (init_state\<lparr>current_emotion := ''happy'', emotion_start_time := Some 1000\<rparr>)
      (observed ''happy'' 0.2 1003 1003)) = None"
proof -
  have low: "(0.2::real) < confidence_threshold default_config"
    by (simp add: default_config_def)
  from low_confidence_as_neutral[OF low] show ?thesis by simp
qed

section \<open>No trigger for \<open>neutral\<close>\<close>

text \<open>
  C8. In every run of the main loop, from every state, no emitted trigger event carries
  the label \<open>neutral\<close>, whether it comes from \<open>_process_emotion\<close> or from the manual
  trigger key.
\<close>

theorem trigger_label_never_neutral:
  "\<forall>e\<in>set (snd (main_loop cfg s frames)). trigger_label e \<noteq> Some ''neutral''"
proof (induction frames arbitrary: s)
  case Nil
  then show ?case by simp
next
  case (Cons fr frames)
  obtain ob key t where fr: "fr = (ob, key, t)" by (cases fr)
  obtain s1 r where step: "process_emotion cfg s ob = (s1, r)"
    by (cases "process_emotion cfg s ob")
  obtain continue s2 evs where hk: "handle_key cfg s1 key (ob_emotion ob) t = (continue, s2, evs)"
    by (cases "handle_key cfg s1 key (ob_emotion ob) t")
  have a: "\<forall>e\<in>set (case r of None \<Rightarrow> [] | Some ev \<Rightarrow> [ev]). trigger_label e \<noteq> Some ''neutral''"
    using step process_emotion_label[of cfg s ob s1] by (cases r) auto
  have b: "\<forall>e\<in>set evs. trigger_label e \<noteq> Some ''neutral''"
    using handle_key_labels[of cfg s1 key "ob_emotion ob" t] hk by simp
  from a b Cons.IH[of s2] fr step hk show ?case
    by (auto simp add: Let_def split: prod.splits option.splits)
qed

theorem trigger_label_never_neutral_witness:
  "snd (main_loop default_config init_state
     [(observed ''neutral'' 0.9 1000 1000, 109, 1000.1),
      (observed ''happy'' 0.9 1001 1001, 0, 1001),
      (observed ''happy'' 0.9 1006 1006.1, 115, 1006.2),
      (observed ''happy'' 0.9 1007 1007, 27, 1007)])
    = [Trigger ''happy'' 4 True, Trigger ''happy'' 4 True, StopAudio]
   \<and> trigger_label (hd (snd (main_loop default_config init_state
     [(observed ''neutral'' 0.9 1000 1000, 109, 1000.1),
      (observed ''happy'' 0.9 1001 1001, 0, 1001),
      (observed ''happy'' 0.9 1006 1006.1, 115, 1006.2),
      (observed ''happy'' 0.9 1007 1007, 27, 1007)]))) \<noteq> Some ''neutral''"
proof -
  let ?frames = "[(observed ''neutral'' 0.9 1000 1000, 109::nat, 1000.1::real),
      (observed ''happy'' 0.9 1001 1001, 0, 1001),
      (observed ''happy'' 0.9 1006 1006.1, 115, 1006.2),
      (observed ''happy'' 0.9 1007 1007, 27, 1007)]"
  have run: "snd (main_loop default_config init_state ?frames)
      = [Trigger ''happy'' 4 True, Trigger ''happy'' 4 True, StopAudio]"
    by (simp add: process_emotion_def coerced_def cooldown_ok_def default_config_def
      init_state_def trigger_meme_def handle_key_def Let_def)
  from trigger_label_never_neutral[of default_config init_state ?frames] run
  show ?thesis by simp
qed

section \<open>A label change resets the episode\<close>

text \<open>
  C9. When the label of an observation (after the threshold coercion) differs from
  \<open>current_emotion\<close>, the call sets \<open>current_emotion\<close> to it, \<open>emotion_start_time\<close> to
  the call's clock value and \<open>meme_triggered\<close> to false, and emits no trigger. In every
  later run of calls whose clock values are not before the reset, each fire is at least
  \<open>emotion_hold_time\<close> after the reset.
\<close>

theorem label_change_resets_episode:
  assumes "coerced cfg ob \<noteq> current_emotion s"
    and "\<forall>ob'\<in>set obs. ob_time ob \<le> ob_time ob'"
  shows "process_emotion cfg s ob =
      (s\<lparr>current_emotion := coerced cfg ob, emotion_start_time := Some (ob_time ob),
         meme_triggered := False\<rparr>, None)
    \<and> (\<forall>f\<in>set (snd (observe_all cfg (fst (process_emotion cfg s ob)) obs)).
          emotion_hold_time cfg \<le> fst f - ob_time ob)"
proof -
  let ?s' = "s\<lparr>current_emotion := coerced cfg ob, emotion_start_time := Some (ob_time ob),
         meme_triggered := False\<rparr>"
  from assms(1) have step: "process_emotion cfg s ob = (?s', None)"
    by (rule process_emotion_change)
  have "emotion_start_time ?s' = Some (ob_time ob)" by simp
  from fires_after_start[OF this order_refl assms(2)] step show ?thesis by simp
qed

theorem label_change_resets_episode_witness:
  "process_emotion default_config
      (init_state\<lparr>current_emotion := ''happy'', emotion_start_time := Some 990\<rparr>)
      (observed ''sad'' 0.9 1000 1000)
     = (\<lparr>current_emotion = ''sad'', emotion_start_time = Some 1000,
         meme_triggered = False, last_meme_time = 0, sound_enabled = True\<rparr>, None)
   \<and> snd (observe_all default_config
      (fst (process_emotion default_config
         (init_state\<lparr>current_emotion := ''happy'', emotion_start_time := Some 990\<rparr>)
         (observed ''sad'' 0.9 1000 1000)))
      [observed ''sad'' 0.9 1001.5 1001.5, observed ''sad'' 0.9 1002.1 1002.2])
     = [(1002.1, Trigger ''sad'' 4 True)]
   \<and> emotion_hold_time default_config \<le> 1002.1 - 1000"
proof -
  let ?s = "init_state\<lparr>current_emotion := ''happy'', emotion_start_time := Some 990\<rparr>"
  let ?ob = "observed ''sad'' 0.9 1000 1000"
  let ?obs = "[observed ''sad'' 0.9 1001.5 1001.5, observed ''sad'' 0.9 1002.1 1002.2]"
  have change: "coerced default_config ?ob \<noteq> current_emotion ?s"
    by (simp add: coerced_def default_config_def init_state_def)
  have later: "\<forall>ob'\<in>set ?obs. ob_time ?ob \<le> ob_time ob'" by simp
  have run: "snd (observe_all default_config (fst (process_emotion default_config ?s ?ob)) ?obs)
     = [(1002.1, Trigger ''sad'' 4 True)]"
    by (simp add: process_emotion_def coerced_def cooldown_ok_def default_config_def
      init_state_def trigger_meme_def Let_def)
  from label_change_resets_episode[OF change later] run show ?thesis
    by (simp add: coerced_def default_config_def init_state_def)
qed

end
